theory Spec2Isabelle
  imports Main "HOL-Library.Word"
begin

unbundle bit_operations_syntax

section \<open>JavaScript strings\<close>

text \<open>
  A JavaScript string is a sequence of 16-bit UTF-16 code units. Program literals
  (event names, object keys, the storage key) are ASCII and are written as HOL strings;
  \<open>js\<close> turns such a literal into code units.
\<close>

type_synonym code_unit = "16 word"
type_synonym jsstring = "code_unit list"

definition js :: "string \<Rightarrow> jsstring" where
  "js s = map (\<lambda>c. of_nat (of_char c)) s"

subsection \<open>\<open>String.prototype.trim\<close>\<close>

text \<open>
  \<open>trim\<close> removes leading and trailing code units that are WhiteSpace or LineTerminator
  in the sense of ECMAScript: TAB, VT, FF, ZWNBSP and the Unicode space separators, and
  LF, CR, LS, PS. All of them lie in the Basic Multilingual Plane, so the test is on
  single code units.
\<close>

definition isWhiteSpace :: "code_unit \<Rightarrow> bool" where
  "isWhiteSpace u \<longleftrightarrow>
     u \<in> set [0x0009, 0x000B, 0x000C, 0x0020, 0x00A0, 0x1680, 0x202F, 0x205F, 0x3000, 0xFEFF]
     \<or> (0x2000 \<le> u \<and> u \<le> 0x200A)"

definition isLineTerminator :: "code_unit \<Rightarrow> bool" where
  "isLineTerminator u \<longleftrightarrow> u \<in> set [0x000A, 0x000D, 0x2028, 0x2029]"

definition isTrimmed :: "code_unit \<Rightarrow> bool" where
  "isTrimmed u \<longleftrightarrow> isWhiteSpace u \<or> isLineTerminator u"

definition trim :: "jsstring \<Rightarrow> jsstring" where
  "trim s = rev (dropWhile isTrimmed (rev (dropWhile isTrimmed s)))"

text \<open>Truthiness of a string value: only the empty string is falsy.\<close>

definition truthy :: "jsstring \<Rightarrow> bool" where
  "truthy s \<longleftrightarrow> s \<noteq> []"

text \<open>
  Truthiness of the result of \<open>localStorage.getItem\<close>, which is \<open>null\<close> (here \<open>None\<close>)
  or a string: \<open>null\<close> and the empty string are falsy.
\<close>

definition truthy_opt :: "jsstring option \<Rightarrow> bool" where
  "truthy_opt v = (case v of None \<Rightarrow> False | Some s \<Rightarrow> truthy s)"

subsection \<open>\<open>String.prototype.toUpperCase\<close>\<close>

text \<open>
  \<open>toUpperCase\<close> reads the code units as code points (a lead surrogate followed by a
  trail surrogate is one supplementary code point, any other code unit is itself),
  maps every code point through the Unicode default upper-case mapping, which may
  yield several code points, and encodes the result as UTF-16 again.

  The ASCII part of the mapping is written out. The mapping of the code points from
  U+0080 on is the Unicode character database of the runtime; it is a parameter
  \<open>ucd\<close> of the model.
\<close>

type_synonym code_point = nat
type_synonym case_table = "code_point \<Rightarrow> code_point list"

definition isLeadSurrogate :: "code_unit \<Rightarrow> bool" where
  "isLeadSurrogate u \<longleftrightarrow> 0xD800 \<le> u \<and> u \<le> 0xDBFF"

definition isTrailSurrogate :: "code_unit \<Rightarrow> bool" where
  "isTrailSurrogate u \<longleftrightarrow> 0xDC00 \<le> u \<and> u \<le> 0xDFFF"

fun StringToCodePoints :: "jsstring \<Rightarrow> code_point list" where
  "StringToCodePoints [] = []"
| "StringToCodePoints [u] = [unat u]"
| "StringToCodePoints (h # l # us) =
     (if isLeadSurrogate h \<and> isTrailSurrogate l
      then (0x10000 + (unat h - 0xD800) * 0x400 + (unat l - 0xDC00)) # StringToCodePoints us
      else unat h # StringToCodePoints (l # us))"

definition UTF16EncodeCodePoint :: "code_point \<Rightarrow> jsstring" where
  "UTF16EncodeCodePoint cp =
     (if cp < 0x10000 then [of_nat cp]
      else [of_nat (0xD800 + (cp - 0x10000) div 0x400),
            of_nat (0xDC00 + (cp - 0x10000) mod 0x400)])"

definition CodePointsToString :: "code_point list \<Rightarrow> jsstring" where
  "CodePointsToString cps = concat (map UTF16EncodeCodePoint cps)"

definition toUppercase :: "case_table \<Rightarrow> code_point \<Rightarrow> code_point list" where
  "toUppercase ucd cp =
     (if 0x61 \<le> cp \<and> cp \<le> 0x7A then [cp - 0x20]
      else if cp < 0x80 then [cp]
      else ucd cp)"

definition toUpperCase :: "case_table \<Rightarrow> jsstring \<Rightarrow> jsstring" where
  "toUpperCase ucd s = CodePointsToString (concat (map (toUppercase ucd) (StringToCodePoints s)))"

subsection \<open>\<open>crypto.randomUUID\<close>\<close>

text \<open>
  \<open>crypto.randomUUID()\<close> draws 128 random bits, overwrites the version nibble with 4
  and the two variant bits with binary 10, and prints the 32 nibbles in lower-case
  hexadecimal, grouped 8-4-4-4-12 with hyphens. The random bits are an input of the
  model.
\<close>

definition hex_digit :: "nat \<Rightarrow> code_unit" where
  "hex_digit n = (if n < 10 then of_nat (0x30 + n) else of_nat (0x61 + (n - 10)))"

definition nibble :: "128 word \<Rightarrow> nat \<Rightarrow> nat" where
  "nibble w i = unat (drop_bit (4 * (31 - i)) w AND 0xF)"

definition uuid_nibble :: "128 word \<Rightarrow> nat \<Rightarrow> nat" where
  "uuid_nibble w i =
     (if i = 12 then 4
      else if i = 16 then 8 + nibble w i mod 4
      else nibble w i)"

definition randomUUID :: "128 word \<Rightarrow> jsstring" where
  "randomUUID w =
     (let h = (\<lambda>i. hex_digit (uuid_nibble w i)); dash = 0x2D
      in map h [0..<8] @ [dash] @ map h [8..<12] @ [dash] @ map h [12..<16] @ [dash]
         @ map h [16..<20] @ [dash] @ map h [20..<32])"

section \<open>The chat component\<close>

subsection \<open>Data\<close>

text \<open>
  The \<open>Message\<close> interface. The component never inspects \<open>timestamp\<close>, so its type
  is left open.
\<close>

record 'd Message =
  id_msg :: jsstring
  content :: jsstring
  senderId :: jsstring
  timestamp :: 'd

text \<open>
  The state of \<open>Chat\<close>: the seven \<open>useState\<close> cells, together with the browser's
  \<open>localStorage\<close>, which the identity effect reads and writes. \<open>users\<close> is a JavaScript
  number that is only stored and shown, so its type is left open as well.

  A handler is a function from the state at the time of the call to the state React
  renders next, paired with what the handler does to the outside. Storage access is
  taken to succeed (no \<open>SecurityError\<close>, no exhausted quota). Rendering, styling and
  the scroll effect that follows a change of \<open>messages\<close> are not part of the model.
\<close>

record ('d, 'n) Chat =
  roomCode :: jsstring
  inputCode :: jsstring
  message :: jsstring
  messages :: "'d Message list"
  connected :: bool
  users :: 'n
  userId :: jsstring
  localStorage :: "jsstring \<rightharpoonup> jsstring"

text \<open>The initial values given to \<open>useState\<close>, over a given content of the storage.\<close>

definition Chat_init :: "(jsstring \<rightharpoonup> jsstring) \<Rightarrow> ('d, 'n::zero) Chat" where
  "Chat_init ls =
     \<lparr> roomCode = [], inputCode = [], message = [], messages = [], connected = False,
       users = 0, userId = [], localStorage = ls \<rparr>"

text \<open>
  What a handler does to the outside: \<open>socket.emit\<close> with an event name and its
  arguments, \<open>alert\<close>, and \<open>preventDefault\<close> on the form event.
\<close>

datatype jsval = JString jsstring | JObject "(string \<times> jsval) list"

datatype effect = Emit string "jsval list" | Alert jsstring | PreventDefault

subsection \<open>The identity effect\<close>

definition chatUserId :: jsstring where
  "chatUserId = js ''chatUserId''"

definition mount_identity :: "128 word \<Rightarrow> ('d, 'n) Chat \<Rightarrow> ('d, 'n) Chat \<times> effect list" where
  "mount_identity entropy st =
     (let storedUserId = localStorage st chatUserId;
          newUserId = (case storedUserId of
                         None \<Rightarrow> randomUUID entropy
                       | Some s \<Rightarrow> if truthy s then s else randomUUID entropy);
          ls = (if \<not> truthy_opt storedUserId then (localStorage st)(chatUserId \<mapsto> newUserId)
                else localStorage st)
      in (st\<lparr>localStorage := ls, userId := newUserId\<rparr>,
          [Emit ''set-user-id'' [JString newUserId]]))"

subsection \<open>Handlers of server events\<close>

definition on_room_created :: "jsstring \<Rightarrow> ('d, 'n) Chat \<Rightarrow> ('d, 'n) Chat \<times> effect list" where
  "on_room_created code st = (st\<lparr>roomCode := code\<rparr>, [])"

definition on_joined_room ::
  "jsstring \<Rightarrow> 'd Message list \<Rightarrow> ('d, 'n) Chat \<Rightarrow> ('d, 'n) Chat \<times> effect list" where
  "on_joined_room rc msgs st = (st\<lparr>roomCode := rc, messages := msgs, connected := True\<rparr>, [])"

definition on_new_message :: "'d Message \<Rightarrow> ('d, 'n) Chat \<Rightarrow> ('d, 'n) Chat \<times> effect list" where
  "on_new_message m st = (st\<lparr>messages := messages st @ [m]\<rparr>, [])"

definition on_user_joined :: "'n \<Rightarrow> ('d, 'n) Chat \<Rightarrow> ('d, 'n) Chat \<times> effect list" where
  "on_user_joined userCount st = (st\<lparr>users := userCount\<rparr>, [])"

definition on_user_left :: "'n \<Rightarrow> ('d, 'n) Chat \<Rightarrow> ('d, 'n) Chat \<times> effect list" where
  "on_user_left userCount st = (st\<lparr>users := userCount\<rparr>, [])"

definition on_error :: "jsstring \<Rightarrow> ('d, 'n) Chat \<Rightarrow> ('d, 'n) Chat \<times> effect list" where
  "on_error err st = (st, [Alert err])"

subsection \<open>Handlers of user actions\<close>

definition createRoom :: "('d, 'n) Chat \<Rightarrow> ('d, 'n) Chat \<times> effect list" where
  "createRoom st = (st, [Emit ''create-room'' []])"

definition joinRoom :: "case_table \<Rightarrow> ('d, 'n) Chat \<Rightarrow> ('d, 'n) Chat \<times> effect list" where
  "joinRoom ucd st = (st, [Emit ''join-room'' [JString (toUpperCase ucd (inputCode st))]])"

definition handleInputChange :: "jsstring \<Rightarrow> ('d, 'n) Chat \<Rightarrow> ('d, 'n) Chat \<times> effect list" where
  "handleInputChange v st = (st\<lparr>inputCode := v\<rparr>, [])"

definition handleMessageChange :: "jsstring \<Rightarrow> ('d, 'n) Chat \<Rightarrow> ('d, 'n) Chat \<times> effect list" where
  "handleMessageChange v st = (st\<lparr>message := v\<rparr>, [])"

definition sendMessage :: "('d, 'n) Chat \<Rightarrow> ('d, 'n) Chat \<times> effect list" where
  "sendMessage st =
     (if truthy (trim (message st))
      then (st\<lparr>message := []\<rparr>,
            [PreventDefault,
             Emit ''send-message''
               [JObject [(''roomCode'', JString (roomCode st)),
                         (''message'', JString (message st)),
                         (''userId'', JString (userId st))]]])
      else (st, [PreventDefault]))"

subsection \<open>Everything that can happen to the component\<close>

datatype ('d, 'n) event =
    Mount "128 word"
  | ClickCreateRoom
  | ClickJoinRoom
  | InputChange jsstring
  | MessageChange jsstring
  | SubmitMessage
  | RoomCreated jsstring
  | JoinedRoom jsstring "'d Message list"
  | NewMessage "'d Message"
  | UserJoined 'n
  | UserLeft 'n
  | Error jsstring

fun handle :: "case_table \<Rightarrow> ('d, 'n) event \<Rightarrow> ('d, 'n) Chat \<Rightarrow> ('d, 'n) Chat \<times> effect list" where
  "handle ucd (Mount entropy) st = mount_identity entropy st"
| "handle ucd ClickCreateRoom st = createRoom st"
| "handle ucd ClickJoinRoom st = joinRoom ucd st"
| "handle ucd (InputChange v) st = handleInputChange v st"
| "handle ucd (MessageChange v) st = handleMessageChange v st"
| "handle ucd SubmitMessage st = sendMessage st"
| "handle ucd (RoomCreated code) st = on_room_created code st"
| "handle ucd (JoinedRoom rc msgs) st = on_joined_room rc msgs st"
| "handle ucd (NewMessage m) st = on_new_message m st"
| "handle ucd (UserJoined n) st = on_user_joined n st"
| "handle ucd (UserLeft n) st = on_user_left n st"
| "handle ucd (Error err) st = on_error err st"

text \<open>A run of the component over a sequence of events, collecting what it does to the outside.\<close>

fun run :: "case_table \<Rightarrow> ('d, 'n) event list \<Rightarrow> ('d, 'n) Chat \<Rightarrow> ('d, 'n) Chat \<times> effect list" where
  "run ucd [] st = (st, [])"
| "run ucd (ev # evs) st =
     (let (st1, out1) = handle ucd ev st; (st2, out2) = run ucd evs st1 in (st2, out1 @ out2))"

fun is_new_message :: "('d, 'n) event \<Rightarrow> bool" where
  "is_new_message (NewMessage m) = True"
| "is_new_message ev = False"

fun is_joined_room :: "('d, 'n) event \<Rightarrow> bool" where
  "is_joined_room (JoinedRoom rc msgs) = True"
| "is_joined_room ev = False"

subsection \<open>The interface \<open>ClientToServerEvents\<close>\<close>

text \<open>
  The four events of the interface with the shapes of their arguments:
  \<open>create-room\<close> takes none, \<open>join-room\<close> and \<open>set-user-id\<close> take one string, and
  \<open>send-message\<close> takes one object whose fields are exactly \<open>roomCode\<close>, \<open>message\<close>
  and \<open>userId\<close>, all strings.
\<close>

fun is_JString :: "jsval \<Rightarrow> bool" where
  "is_JString (JString s) = True"
| "is_JString (JObject fs) = False"

definition is_send_message_data :: "jsval \<Rightarrow> bool" where
  "is_send_message_data v =
     (case v of
        JString s \<Rightarrow> False
      | JObject fs \<Rightarrow>
          distinct (map fst fs)
          \<and> set (map fst fs) = {''roomCode'', ''message'', ''userId''}
          \<and> list_all (\<lambda>f. is_JString (snd f)) fs)"

definition ClientToServerEvents :: "string \<Rightarrow> jsval list \<Rightarrow> bool" where
  "ClientToServerEvents name args =
     (if name = ''create-room'' then args = []
      else if name = ''join-room'' then (case args of [v] \<Rightarrow> is_JString v | _ \<Rightarrow> False)
      else if name = ''send-message'' then (case args of [v] \<Rightarrow> is_send_message_data v | _ \<Rightarrow> False)
      else if name = ''set-user-id'' then (case args of [v] \<Rightarrow> is_JString v | _ \<Rightarrow> False)
      else False)"

fun conforms :: "effect \<Rightarrow> bool" where
  "conforms (Emit name args) = ClientToServerEvents name args"
| "conforms (Alert a) = True"
| "conforms PreventDefault = True"

subsection \<open>Sample values\<close>

text \<open>Upper-casing of a single ASCII code unit, to compare \<open>toUpperCase\<close> with.\<close>

definition ascii_upper :: "code_unit \<Rightarrow> code_unit" where
  "ascii_upper u = (if 0x61 \<le> u \<and> u \<le> 0x7A then u - 0x20 else u)"

text \<open>A case table that leaves every code point from U+0080 on as it is.\<close>

definition plain_table :: case_table where
  "plain_table cp = [cp]"

definition hi_message :: "nat Message" where
  "hi_message = \<lparr> id_msg = js ''m1'', content = js ''hi'', senderId = js ''u1'', timestamp = 0 \<rparr>"

definition yo_message :: "nat Message" where
  "yo_message = \<lparr> id_msg = js ''m2'', content = js ''yo'', senderId = js ''u2'', timestamp = 1 \<rparr>"

text \<open>The component right after its first render, over an empty storage.\<close>

definition fresh_chat :: "(nat, nat) Chat" where
  "fresh_chat = Chat_init Map.empty"

text \<open>The component inside room AB12CD with a given text in the message field.\<close>

definition chat_with_draft :: "jsstring \<Rightarrow> (nat, nat) Chat" where
  "chat_with_draft txt =
     \<lparr> roomCode = js ''AB12CD'', inputCode = [], message = txt, messages = [hi_message],
       connected = True, users = 2, userId = js ''u1'', localStorage = [chatUserId \<mapsto> js ''u1''] \<rparr>"

text \<open>The component right after its first render, with a given identifier in the storage.\<close>

definition chat_with_stored :: "jsstring \<Rightarrow> (nat, nat) Chat" where
  "chat_with_stored s = Chat_init [chatUserId \<mapsto> s]"

text \<open>A whole session: identity, creating and joining a room, one message, an error, a leave.\<close>

definition sample_session :: "(nat, nat) event list" where
  "sample_session =
     [Mount 0, ClickCreateRoom, RoomCreated (js ''AB12CD''), InputChange (js ''ab12cd''),
      ClickJoinRoom, JoinedRoom (js ''AB12CD'') [], UserJoined 2, MessageChange (js ''hi''),
      SubmitMessage, NewMessage hi_message, Error (js ''Room is full''), UserLeft 1]"

section \<open>Facts about the string functions\<close>

lemmas string_defs =
  js_def trim_def isTrimmed_def isWhiteSpace_def isLineTerminator_def truthy_def

lemmas handler_defs =
  mount_identity_def createRoom_def joinRoom_def handleInputChange_def handleMessageChange_def
  sendMessage_def on_room_created_def on_joined_room_def on_new_message_def on_user_joined_def
  on_user_left_def on_error_def

lemma ascii_not_lead: "u < 0x80 \<Longrightarrow> \<not> isLeadSurrogate (u :: code_unit)"
  by (simp add: isLeadSurrogate_def word_less_nat_alt word_le_nat_alt)

lemma upper_unit:
  assumes "u < (0x80 :: code_unit)"
  shows "CodePointsToString (toUppercase ucd (unat u)) = [ascii_upper u]"
proof -
  from assms have lt: "unat u < 128" by (simp add: word_less_nat_alt)
  have a: "(0x61 \<le> u) = (0x61 \<le> unat u)" by (simp add: word_le_nat_alt)
  have b: "(u \<le> 0x7A) = (unat u \<le> 0x7A)" by (simp add: word_le_nat_alt)
  show ?thesis
  proof (cases "0x61 \<le> unat u \<and> unat u \<le> 0x7A")
    case True
    then have "of_nat (unat u - 0x20) = u - (0x20 :: code_unit)"
      by (simp add: of_nat_diff)
    moreover from lt have "unat u - 0x20 < 0x10000" by arith
    ultimately show ?thesis using True a b
      by (simp add: toUppercase_def CodePointsToString_def UTF16EncodeCodePoint_def ascii_upper_def)
  next
    case False
    with a b lt show ?thesis
      by (auto simp add: toUppercase_def CodePointsToString_def UTF16EncodeCodePoint_def ascii_upper_def)
  qed
qed

lemma CodePointsToString_append:
  "CodePointsToString (xs @ ys) = CodePointsToString xs @ CodePointsToString ys"
  by (simp add: CodePointsToString_def)

text \<open>On ASCII text \<open>toUpperCase\<close> does not depend on the case table.\<close>

lemma toUpperCase_ascii:
  "\<forall>u \<in> set s. u < 0x80 \<Longrightarrow> toUpperCase ucd s = map ascii_upper s"
proof (induction s rule: StringToCodePoints.induct)
  case 1
  then show ?case by (simp add: toUpperCase_def CodePointsToString_def)
next
  case (2 u)
  then show ?case using upper_unit [of u ucd] by (simp add: toUpperCase_def)
next
  case (3 h l us)
  from "3.prems" have nl: "\<not> isLeadSurrogate h" by (simp add: ascii_not_lead)
  from "3.prems" have hh: "h < 0x80" by simp
  from "3.prems" nl "3.IH"(2) have ih: "toUpperCase ucd (l # us) = map ascii_upper (l # us)" by simp
  have "toUpperCase ucd (h # l # us)
        = CodePointsToString (toUppercase ucd (unat h)) @ toUpperCase ucd (l # us)"
    using nl by (simp add: toUpperCase_def CodePointsToString_append)
  with ih upper_unit [OF hh, of ucd] show ?case by simp
qed

lemma randomUUID_length: "length (randomUUID w) = 36"
  by (simp add: randomUUID_def Let_def)

lemma randomUUID_truthy: "truthy (randomUUID w)"
  using randomUUID_length [of w] by (auto simp: truthy_def)

lemma randomUUID_0: "randomUUID 0 = js ''00000000-0000-4000-8000-000000000000''"
  by code_simp

section \<open>Facts about runs\<close>

lemma handle_conforms: "e \<in> set (snd (handle ucd ev st)) \<Longrightarrow> conforms e"
  by (cases ev)
     (auto simp: handler_defs Let_def ClientToServerEvents_def is_send_message_data_def
        split: if_splits)

lemma run_conforms: "e \<in> set (snd (run ucd evs st)) \<Longrightarrow> conforms e"
proof (induction evs arbitrary: st)
  case Nil
  then show ?case by simp
next
  case (Cons ev evs)
  obtain st1 out1 where h: "handle ucd ev st = (st1, out1)" by (cases "handle ucd ev st")
  obtain st2 out2 where r: "run ucd evs st1 = (st2, out2)" by (cases "run ucd evs st1")
  from Cons.prems h r have "e \<in> set out1 \<or> e \<in> set out2" by auto
  then show ?case
  proof
    assume "e \<in> set out1"
    with h handle_conforms [of e ucd ev st] show ?thesis by simp
  next
    assume "e \<in> set out2"
    with r Cons.IH [of st1] show ?thesis by simp
  qed
qed

lemma run_new_messages:
  "messages (fst (run ucd (map NewMessage ms) st)) = messages st @ ms"
  by (induction ms arbitrary: st) (auto simp: on_new_message_def split: prod.splits)

lemma handle_messages:
  "messages (fst (handle ucd ev st)) \<noteq> messages st \<Longrightarrow> is_new_message ev \<or> is_joined_room ev"
  by (cases ev) (simp_all add: handler_defs Let_def split: if_splits)

section \<open>Facts about the identity effect\<close>

lemma mount_identity_stored:
  "localStorage st chatUserId = Some s \<Longrightarrow> s \<noteq> [] \<Longrightarrow>
     mount_identity e st = (st\<lparr>localStorage := localStorage st, userId := s\<rparr>,
                            [Emit ''set-user-id'' [JString s]])"
  by (simp add: mount_identity_def truthy_opt_def truthy_def)

lemma mount_identity_generated:
  "localStorage st chatUserId = None \<or> localStorage st chatUserId = Some [] \<Longrightarrow>
     mount_identity e st =
       (st\<lparr>localStorage := (localStorage st)(chatUserId \<mapsto> randomUUID e), userId := randomUUID e\<rparr>,
        [Emit ''set-user-id'' [JString (randomUUID e)]])"
  by (auto simp: mount_identity_def truthy_opt_def truthy_def Let_def)

lemma mount_identity_cases:
  "(\<exists>s. localStorage st chatUserId = Some s \<and> s \<noteq> [])
   \<or> localStorage st chatUserId = None \<or> localStorage st chatUserId = Some []"
  by (cases "localStorage st chatUserId") auto

lemma mount_identity_emits:
  "snd (mount_identity e st) = [Emit ''set-user-id'' [JString (userId (fst (mount_identity e st)))]]"
  by (simp add: mount_identity_def Let_def)

lemma mount_identity_persists:
  "localStorage (fst (mount_identity e st)) chatUserId = Some (userId (fst (mount_identity e st)))
   \<and> userId (fst (mount_identity e st)) \<noteq> []"
  using mount_identity_cases [of st] randomUUID_truthy [of e]
  by (auto simp: mount_identity_stored mount_identity_generated truthy_def)

lemma mount_identity_again:
  assumes "localStorage st' = localStorage (fst (mount_identity e st))"
  shows "snd (mount_identity e' st') = snd (mount_identity e st)
         \<and> userId (fst (mount_identity e' st')) = userId (fst (mount_identity e st))
         \<and> localStorage (fst (mount_identity e' st')) = localStorage st'"
proof -
  let ?u = "userId (fst (mount_identity e st))"
  from assms mount_identity_persists [of e st]
  have "localStorage st' chatUserId = Some ?u" and "?u \<noteq> []" by simp_all
  from mount_identity_stored [OF this, of e'] mount_identity_emits [of e st]
  show ?thesis by simp
qed

section \<open>Properties of the component\<close>

subsection \<open>Sending a message\<close>

text \<open>
  Claim C1. In every state, submitting the message form emits a \<open>send-message\<close> event
  if and only if the message text trims to a non-empty string; when it trims to the
  empty string, nothing is emitted at all and the state, the message field included,
  stays as it was.
\<close>

theorem sendMessage_emits_iff_text_nonblank:
  "((\<exists>args. Emit ''send-message'' args \<in> set (snd (sendMessage st))) \<longleftrightarrow> trim (message st) \<noteq> [])
   \<and> (trim (message st) = [] \<longrightarrow>
        (\<forall>name args. Emit name args \<notin> set (snd (sendMessage st))) \<and> fst (sendMessage st) = st)"
  by (simp add: sendMessage_def truthy_def)

text \<open>
  A field holding three blanks sends nothing and keeps the blanks; a field holding
  \<open>hi\<close> sends.
\<close>

theorem sendMessage_emits_iff_text_nonblank_witness:
  "trim (message (chat_with_draft (js ''   ''))) = []
   \<and> Emit ''send-message''
        [JObject [(''roomCode'', JString (js ''AB12CD'')),
                  (''message'', JString (js ''   '')),
                  (''userId'', JString (js ''u1''))]]
       \<notin> set (snd (sendMessage (chat_with_draft (js ''   ''))))
   \<and> fst (sendMessage (chat_with_draft (js ''   ''))) = chat_with_draft (js ''   '')
   \<and> trim (message (chat_with_draft (js ''hi''))) = js ''hi''
   \<and> Emit ''send-message''
        [JObject [(''roomCode'', JString (js ''AB12CD'')),
                  (''message'', JString (js ''hi'')),
                  (''userId'', JString (js ''u1''))]]
       \<in> set (snd (sendMessage (chat_with_draft (js ''hi''))))"
proof -
  have blank: "trim (message (chat_with_draft (js ''   ''))) = []"
    by (simp add: chat_with_draft_def string_defs)
  have nonblank: "trim (message (chat_with_draft (js ''hi''))) = js ''hi''"
    by (simp add: chat_with_draft_def string_defs)
  have sent: "Emit ''send-message''
        [JObject [(''roomCode'', JString (js ''AB12CD'')),
                  (''message'', JString (js ''hi'')),
                  (''userId'', JString (js ''u1''))]]
       \<in> set (snd (sendMessage (chat_with_draft (js ''hi''))))"
    using nonblank by (simp add: sendMessage_def truthy_def) (simp add: chat_with_draft_def js_def)
  from blank sendMessage_emits_iff_text_nonblank [of "chat_with_draft (js ''   '')"]
  have "(\<forall>name args. Emit name args \<notin> set (snd (sendMessage (chat_with_draft (js ''   '')))))
        \<and> fst (sendMessage (chat_with_draft (js ''   ''))) = chat_with_draft (js ''   '')"
    by blast
  with blank nonblank sent show ?thesis by blast
qed

text \<open>
  Claim C10. When the message text trims to a non-empty string, the payload of the
  emitted \<open>send-message\<close> carries the text as it stands in the field, untrimmed,
  next to the room code and the user identifier of the state, and the message field
  is reset to the empty string; nothing else of the state changes.
\<close>

theorem sendMessage_payload_untrimmed:
  "trim (message st) \<noteq> [] \<Longrightarrow>
     snd (sendMessage st) =
       [PreventDefault,
        Emit ''send-message''
          [JObject [(''roomCode'', JString (roomCode st)),
                    (''message'', JString (message st)),
                    (''userId'', JString (userId st))]]]
     \<and> fst (sendMessage st) = st\<lparr>message := []\<rparr>
     \<and> message (fst (sendMessage st)) = []"
  by (simp add: sendMessage_def truthy_def)

text \<open>The text \<open>hi\<close> with one blank before and two after is sent with its blanks.\<close>

theorem sendMessage_payload_untrimmed_witness:
  "trim (message (chat_with_draft (js '' hi  ''))) = js ''hi''
   \<and> snd (sendMessage (chat_with_draft (js '' hi  ''))) =
       [PreventDefault,
        Emit ''send-message''
          [JObject [(''roomCode'', JString (js ''AB12CD'')),
                    (''message'', JString (js '' hi  '')),
                    (''userId'', JString (js ''u1''))]]]
   \<and> message (fst (sendMessage (chat_with_draft (js '' hi  '')))) = []"
proof -
  have t: "trim (message (chat_with_draft (js '' hi  ''))) = js ''hi''"
    by (simp add: chat_with_draft_def string_defs)
  then have "trim (message (chat_with_draft (js '' hi  ''))) \<noteq> []"
    by (simp add: js_def)
  from sendMessage_payload_untrimmed [OF this] t show ?thesis
    by (simp add: chat_with_draft_def)
qed

subsection \<open>The message list\<close>

text \<open>
  Claim C2, as it is worded: the message list grows only when a \<open>new-message\<close> event
  arrives. This fails: a \<open>joined-room\<close> event carrying one message makes the empty
  list of a fresh component longer, and it is not a \<open>new-message\<close> event.
\<close>

theorem messages_grow_on_joined_room:
  "length (messages fresh_chat)
     < length (messages (fst (handle plain_table (JoinedRoom (js ''AB12CD'') [hi_message]) fresh_chat)))
   \<and> \<not> is_new_message (JoinedRoom (js ''AB12CD'') [hi_message] :: (nat, nat) event)"
  by (simp add: fresh_chat_def Chat_init_def on_joined_room_def)

text \<open>
  Claim C2, amended. Submitting a message never modifies the message list. Whatever
  happens to the component, the list changes only when a \<open>new-message\<close> event or a
  \<open>joined-room\<close> event arrives from the server: the first appends the received
  message, the second replaces the list by the received one. No local action changes
  it, sending included.
\<close>

theorem messages_change_only_on_server_events:
  "messages (fst (sendMessage st)) = messages st
   \<and> (messages (fst (handle ucd ev st)) \<noteq> messages st \<longrightarrow> is_new_message ev \<or> is_joined_room ev)
   \<and> messages (fst (handle ucd (NewMessage m) st)) = messages st @ [m]
   \<and> messages (fst (handle ucd (JoinedRoom rc msgs) st)) = msgs"
  using handle_messages [of ucd ev st]
  by (simp add: sendMessage_def on_new_message_def on_joined_room_def)

theorem messages_change_only_on_server_events_witness:
  "messages (fst (handle plain_table (JoinedRoom (js ''AB12CD'') [hi_message]) fresh_chat))
     \<noteq> messages fresh_chat
   \<and> is_joined_room (JoinedRoom (js ''AB12CD'') [hi_message] :: (nat, nat) event)
   \<and> messages (fst (sendMessage (chat_with_draft (js ''yo'')))) = [hi_message]
   \<and> messages (fst (handle plain_table (NewMessage yo_message) (chat_with_draft (js ''yo''))))
       = [hi_message, yo_message]"
proof -
  have changed:
    "messages (fst (handle plain_table (JoinedRoom (js ''AB12CD'') [hi_message]) fresh_chat))
       \<noteq> messages fresh_chat"
    by (simp add: fresh_chat_def Chat_init_def on_joined_room_def)
  from changed
    messages_change_only_on_server_events
      [of fresh_chat plain_table "JoinedRoom (js ''AB12CD'') [hi_message]" hi_message "[]" "[]"]
    messages_change_only_on_server_events
      [of "chat_with_draft (js ''yo'')" plain_table ClickCreateRoom yo_message "[]" "[]"]
  show ?thesis by (simp add: chat_with_draft_def)
qed

text \<open>
  Claim C4. The handler of \<open>new-message\<close> puts the received message at the end of the
  message list and changes nothing else: the messages held before are the prefix of the
  new list, in their order, and the list is one longer. Over a sequence of
  \<open>new-message\<close> events the list grows by the received messages in their order of
  arrival.
\<close>

theorem new_message_appends_in_arrival_order:
  "handle ucd (NewMessage m) st = on_new_message m st
   \<and> on_new_message m st = (st\<lparr>messages := messages st @ [m]\<rparr>, [])
   \<and> take (length (messages st)) (messages (fst (on_new_message m st))) = messages st
   \<and> last (messages (fst (on_new_message m st))) = m
   \<and> length (messages (fst (on_new_message m st))) = Suc (length (messages st))
   \<and> messages (fst (run ucd (map NewMessage ms) st)) = messages st @ ms"
  using run_new_messages [of ucd ms st] by (simp add: on_new_message_def)

text \<open>
  Claim C5. The handler of \<open>joined-room\<close> sets the message list to exactly the received
  list, whatever was held before, sets the room code to the received one and sets
  \<open>connected\<close> to true; it changes nothing else and emits nothing.
\<close>

theorem joined_room_replaces_messages:
  "handle ucd (JoinedRoom rc msgs) st = on_joined_room rc msgs st
   \<and> on_joined_room rc msgs st = (st\<lparr>roomCode := rc, messages := msgs, connected := True\<rparr>, [])
   \<and> messages (fst (on_joined_room rc msgs st)) = msgs
   \<and> roomCode (fst (on_joined_room rc msgs st)) = rc
   \<and> connected (fst (on_joined_room rc msgs st))"
  by (simp add: on_joined_room_def)

subsection \<open>Joining a room\<close>

text \<open>
  Claim C3. Whatever string is typed into the room-code field, pressing the join button
  emits exactly one event, \<open>join-room\<close>, whose argument is that string in upper case.
  On ASCII input the upper-casing is the letter-wise one, whatever the case table of
  the runtime.
\<close>

theorem joinRoom_emits_uppercased_input:
  "snd (joinRoom ucd (fst (handleInputChange v st)))
     = [Emit ''join-room'' [JString (toUpperCase ucd v)]]
   \<and> snd (joinRoom ucd st) = [Emit ''join-room'' [JString (toUpperCase ucd (inputCode st))]]
   \<and> ((\<forall>u \<in> set v. u < 0x80) \<longrightarrow> toUpperCase ucd v = map ascii_upper v)"
  using toUpperCase_ascii [of v ucd] by (simp add: joinRoom_def handleInputChange_def)

theorem joinRoom_emits_uppercased_input_witness:
  "snd (joinRoom plain_table (fst (handleInputChange (js ''ab12cd'') fresh_chat)))
     = [Emit ''join-room'' [JString (js ''AB12CD'')]]"
proof -
  have ascii: "\<forall>u \<in> set (js ''ab12cd''). u < 0x80" by (simp add: js_def)
  have up: "map ascii_upper (js ''ab12cd'') = js ''AB12CD''" by (simp add: js_def ascii_upper_def)
  from ascii up joinRoom_emits_uppercased_input [of plain_table "js ''ab12cd''" fresh_chat]
  show ?thesis by simp
qed

subsection \<open>Identity\<close>

text \<open>
  Claim C6, as it is worded: an identifier found under \<open>chatUserId\<close> is reused
  unchanged. This fails when the stored identifier is the empty string: it exists, but
  the effect generates a UUID, overwrites the stored value with it and emits it.
\<close>

theorem mount_identity_replaces_empty_stored_id:
  "localStorage (chat_with_stored []) chatUserId = Some []
   \<and> userId (fst (mount_identity 0 (chat_with_stored [])))
       = js ''00000000-0000-4000-8000-000000000000''
   \<and> userId (fst (mount_identity 0 (chat_with_stored []))) \<noteq> []
   \<and> localStorage (fst (mount_identity 0 (chat_with_stored []))) chatUserId
       = Some (js ''00000000-0000-4000-8000-000000000000'')
   \<and> snd (mount_identity 0 (chat_with_stored []))
       = [Emit ''set-user-id'' [JString (js ''00000000-0000-4000-8000-000000000000'')]]"
  by (simp add: chat_with_stored_def Chat_init_def mount_identity_def truthy_opt_def truthy_def
        randomUUID_0 Let_def js_def)

text \<open>
  Claim C6, amended. On mount the effect reads the identifier stored under
  \<open>chatUserId\<close>. A stored identifier that is not the empty string is reused unchanged
  and the storage is left as it is; when none is stored, or the empty string is, the
  effect generates a UUID and stores it under the key. In either case \<open>userId\<close> is
  set to that value and \<open>set-user-id\<close> is emitted with exactly that value; afterwards
  the storage holds it, it is not empty, and every later mount over that storage emits
  the same identifier again and leaves the storage alone.
\<close>

theorem mount_identity_reuses_nonempty_stored_id:
  "(\<forall>s. localStorage st chatUserId = Some s \<and> s \<noteq> [] \<longrightarrow>
        userId (fst (mount_identity e st)) = s
        \<and> localStorage (fst (mount_identity e st)) = localStorage st)
   \<and> (localStorage st chatUserId = None \<or> localStorage st chatUserId = Some [] \<longrightarrow>
        userId (fst (mount_identity e st)) = randomUUID e
        \<and> localStorage (fst (mount_identity e st)) = (localStorage st)(chatUserId \<mapsto> randomUUID e))
   \<and> snd (mount_identity e st)
       = [Emit ''set-user-id'' [JString (userId (fst (mount_identity e st)))]]
   \<and> localStorage (fst (mount_identity e st)) chatUserId = Some (userId (fst (mount_identity e st)))
   \<and> userId (fst (mount_identity e st)) \<noteq> []
   \<and> (\<forall>e' st'. localStorage st' = localStorage (fst (mount_identity e st)) \<longrightarrow>
        snd (mount_identity e' (st' :: ('d, 'n) Chat)) = snd (mount_identity e st)
        \<and> userId (fst (mount_identity e' st')) = userId (fst (mount_identity e st))
        \<and> localStorage (fst (mount_identity e' st')) = localStorage st')"
proof -
  have a: "\<forall>s. localStorage st chatUserId = Some s \<and> s \<noteq> [] \<longrightarrow>
        userId (fst (mount_identity e st)) = s
        \<and> localStorage (fst (mount_identity e st)) = localStorage st"
    by (simp add: mount_identity_stored)
  have b: "localStorage st chatUserId = None \<or> localStorage st chatUserId = Some [] \<longrightarrow>
        userId (fst (mount_identity e st)) = randomUUID e
        \<and> localStorage (fst (mount_identity e st)) = (localStorage st)(chatUserId \<mapsto> randomUUID e)"
    using mount_identity_generated [of st e] by auto
  have c: "\<forall>e' st'. localStorage st' = localStorage (fst (mount_identity e st)) \<longrightarrow>
        snd (mount_identity e' (st' :: ('d, 'n) Chat)) = snd (mount_identity e st)
        \<and> userId (fst (mount_identity e' st')) = userId (fst (mount_identity e st))
        \<and> localStorage (fst (mount_identity e' st')) = localStorage st'"
    using mount_identity_again [of _ e st] by blast
  from a b c mount_identity_emits [of e st] mount_identity_persists [of e st]
  show ?thesis by blast
qed

text \<open>
  A stored \<open>u1\<close> is reused; over an empty storage a UUID is generated, and a second
  session over the storage it left emits that UUID again.
\<close>

theorem mount_identity_reuses_nonempty_stored_id_witness:
  "localStorage (chat_with_stored (js ''u1'')) chatUserId = Some (js ''u1'')
   \<and> js ''u1'' \<noteq> []
   \<and> userId (fst (mount_identity 7 (chat_with_stored (js ''u1'')))) = js ''u1''
   \<and> localStorage (fst (mount_identity 7 (chat_with_stored (js ''u1''))))
       = localStorage (chat_with_stored (js ''u1''))
   \<and> snd (mount_identity 7 (chat_with_stored (js ''u1'')))
       = [Emit ''set-user-id'' [JString (js ''u1'')]]
   \<and> localStorage fresh_chat chatUserId = None
   \<and> userId (fst (mount_identity 0 fresh_chat)) = js ''00000000-0000-4000-8000-000000000000''
   \<and> snd (mount_identity 7 (chat_with_stored (userId (fst (mount_identity 0 fresh_chat)))))
       = [Emit ''set-user-id'' [JString (js ''00000000-0000-4000-8000-000000000000'')]]"
proof -
  have s1: "localStorage (chat_with_stored (js ''u1'')) chatUserId = Some (js ''u1'')"
    by (simp add: chat_with_stored_def Chat_init_def)
  have s2: "js ''u1'' \<noteq> []" by (simp add: js_def)
  have s3: "localStorage fresh_chat chatUserId = None"
    by (simp add: fresh_chat_def Chat_init_def)
  have s4: "localStorage (chat_with_stored (userId (fst (mount_identity 0 fresh_chat))))
              = localStorage (fst (mount_identity 0 fresh_chat))"
    using s3 by (simp add: chat_with_stored_def Chat_init_def mount_identity_def fresh_chat_def
        Let_def truthy_opt_def)
  note A = mount_identity_reuses_nonempty_stored_id [of "chat_with_stored (js ''u1'')" 7]
  note B = mount_identity_reuses_nonempty_stored_id [of fresh_chat 0]
  from A s1 s2 have a1: "userId (fst (mount_identity 7 (chat_with_stored (js ''u1'')))) = js ''u1''
      \<and> localStorage (fst (mount_identity 7 (chat_with_stored (js ''u1''))))
          = localStorage (chat_with_stored (js ''u1''))"
    by blast
  from A have "snd (mount_identity 7 (chat_with_stored (js ''u1'')))
      = [Emit ''set-user-id'' [JString (userId (fst (mount_identity 7 (chat_with_stored (js ''u1'')))))]]"
    by blast
  with a1 have a2: "snd (mount_identity 7 (chat_with_stored (js ''u1'')))
      = [Emit ''set-user-id'' [JString (js ''u1'')]]"
    by simp
  from B s3 have "userId (fst (mount_identity 0 fresh_chat)) = randomUUID 0" by blast
  then have b1: "userId (fst (mount_identity 0 fresh_chat)) = js ''00000000-0000-4000-8000-000000000000''"
    by (simp add: randomUUID_0)
  from B s4 have "snd (mount_identity 7 (chat_with_stored (userId (fst (mount_identity 0 fresh_chat)))))
      = snd (mount_identity 0 fresh_chat)"
    by blast
  moreover from B have "snd (mount_identity 0 fresh_chat)
      = [Emit ''set-user-id'' [JString (userId (fst (mount_identity 0 fresh_chat)))]]"
    by blast
  ultimately have b2: "snd (mount_identity 7 (chat_with_stored (userId (fst (mount_identity 0 fresh_chat)))))
      = [Emit ''set-user-id'' [JString (js ''00000000-0000-4000-8000-000000000000'')]]"
    using b1 by simp
  from s1 s2 s3 a1 a2 b1 b2 show ?thesis by blast
qed

subsection \<open>What the component emits\<close>

text \<open>
  Claim C7. Over any sequence of events and from any state, every event the component
  emits to the server is one of the four of \<open>ClientToServerEvents\<close> with the
  arguments of its shape: \<open>set-user-id\<close> with one string, \<open>create-room\<close> with none,
  \<open>join-room\<close> with one string, \<open>send-message\<close> with one object of the string fields
  \<open>roomCode\<close>, \<open>message\<close> and \<open>userId\<close>. The mount emits \<open>set-user-id\<close> with the user
  identifier, the create button \<open>create-room\<close>, the join button \<open>join-room\<close> with
  the room code, and the form at most one \<open>send-message\<close> with the three fields of
  the state.
\<close>

theorem emitted_events_conform:
  "(\<forall>e \<in> set (snd (run ucd evs st)). conforms e)
   \<and> snd (handle ucd (Mount entropy) st)
       = [Emit ''set-user-id'' [JString (userId (fst (handle ucd (Mount entropy) st)))]]
   \<and> snd (handle ucd ClickCreateRoom st) = [Emit ''create-room'' []]
   \<and> snd (handle ucd ClickJoinRoom st)
       = [Emit ''join-room'' [JString (toUpperCase ucd (inputCode st))]]
   \<and> (\<forall>e \<in> set (snd (handle ucd SubmitMessage st)).
        e = PreventDefault
        \<or> e = Emit ''send-message''
                [JObject [(''roomCode'', JString (roomCode st)),
                          (''message'', JString (message st)),
                          (''userId'', JString (userId st))]])"
  using run_conforms [of _ ucd evs st]
  by (auto simp: mount_identity_def createRoom_def joinRoom_def sendMessage_def Let_def)

text \<open>The sample session emits each of the four events once, and each conforms.\<close>

theorem emitted_events_conform_witness:
  "snd (run plain_table sample_session fresh_chat) =
     [Emit ''set-user-id'' [JString (js ''00000000-0000-4000-8000-000000000000'')],
      Emit ''create-room'' [],
      Emit ''join-room'' [JString (js ''AB12CD'')],
      PreventDefault,
      Emit ''send-message''
        [JObject [(''roomCode'', JString (js ''AB12CD'')),
                  (''message'', JString (js ''hi'')),
                  (''userId'', JString (js ''00000000-0000-4000-8000-000000000000''))]],
      Alert (js ''Room is full'')]
   \<and> conforms (Emit ''set-user-id'' [JString (js ''00000000-0000-4000-8000-000000000000'')])
   \<and> conforms (Emit ''create-room'' [])
   \<and> conforms (Emit ''join-room'' [JString (js ''AB12CD'')])
   \<and> conforms (Emit ''send-message''
        [JObject [(''roomCode'', JString (js ''AB12CD'')),
                  (''message'', JString (js ''hi'')),
                  (''userId'', JString (js ''00000000-0000-4000-8000-000000000000''))]])"
proof -
  have r: "snd (run plain_table sample_session fresh_chat) =
     [Emit ''set-user-id'' [JString (js ''00000000-0000-4000-8000-000000000000'')],
      Emit ''create-room'' [],
      Emit ''join-room'' [JString (js ''AB12CD'')],
      PreventDefault,
      Emit ''send-message''
        [JObject [(''roomCode'', JString (js ''AB12CD'')),
                  (''message'', JString (js ''hi'')),
                  (''userId'', JString (js ''00000000-0000-4000-8000-000000000000''))]],
      Alert (js ''Room is full'')]"
    by (simp add: sample_session_def fresh_chat_def Chat_init_def handler_defs Let_def
          truthy_opt_def string_defs randomUUID_0 hi_message_def plain_table_def
          toUpperCase_def toUppercase_def CodePointsToString_def UTF16EncodeCodePoint_def
          isLeadSurrogate_def isTrailSurrogate_def)
  from r emitted_events_conform [of plain_table sample_session fresh_chat]
  show ?thesis by simp
qed

subsection \<open>Errors and presence\<close>

text \<open>
  Claim C8. The handler of \<open>error\<close> shows the received string, as it is, in an alert,
  does nothing else, and leaves the whole state unchanged: room code, messages,
  \<open>connected\<close>, \<open>users\<close>, user identifier and every other field.
\<close>

theorem error_alerts_and_keeps_state:
  "handle ucd (Error err) st = on_error err st
   \<and> snd (on_error err st) = [Alert err]
   \<and> fst (on_error err st) = st"
  by (simp add: on_error_def)

text \<open>
  Claim C9. The handlers of \<open>user-joined\<close> and \<open>user-left\<close> set \<open>users\<close> to exactly the
  received count and emit nothing; every other field, among them the messages, the room
  code, \<open>connected\<close> and the user identifier, is unchanged.
\<close>

theorem presence_sets_users_only:
  "handle ucd (UserJoined n) st = on_user_joined n st
   \<and> handle ucd (UserLeft n) st = on_user_left n st
   \<and> on_user_joined n st = (st\<lparr>users := n\<rparr>, [])
   \<and> on_user_left n st = (st\<lparr>users := n\<rparr>, [])
   \<and> users (st\<lparr>users := n\<rparr>) = n
   \<and> messages (st\<lparr>users := n\<rparr>) = messages st
   \<and> roomCode (st\<lparr>users := n\<rparr>) = roomCode st
   \<and> connected (st\<lparr>users := n\<rparr>) = connected st
   \<and> userId (st\<lparr>users := n\<rparr>) = userId st"
  by (simp add: on_user_joined_def on_user_left_def)

end
